theory Spec2Isabelle
  imports Main
begin

section \<open>JavaScript values\<close>

text \<open>
  The values that reach the model of \<^verbatim>\<open>lib/base.js\<close>: \<^verbatim>\<open>undefined\<close>, \<^verbatim>\<open>null\<close>,
  booleans, integer numbers, strings, arrays and plain objects. An object is the list of
  its own fields in enumeration order (keys distinct). Strings are lists of 8-bit
  characters. Functions, dates, buffers, non-integer numbers and inherited properties are
  outside the model.
\<close>

datatype jsval =
    Undefined
  | Null
  | Bool bool
  | Num int
  | Str string
  | Arr "jsval list"
  | Obj "(string \<times> jsval) list"

text \<open>
  What a call can throw. \<open>DbError message description\<close> is the object built by
  \<^verbatim>\<open>lib/error.js\<close>; \<open>Error\<close> is a plain \<^verbatim>\<open>new Error(message)\<close>; \<open>ReferenceError\<close> carries
  the undeclared identifier; \<open>TypeError\<close> is the engine's error for a property read on
  \<^verbatim>\<open>undefined\<close>/\<^verbatim>\<open>null\<close> or a call of a non-function; \<open>DriverError\<close> is an error value
  handed back by the database driver.
\<close>

datatype exn =
    DbError string jsval
  | Error string
  | ReferenceError string
  | TypeError
  | DriverError jsval

subsection \<open>The predicates of underscore\<close>

fun isNumber :: "jsval \<Rightarrow> bool" where
  "isNumber (Num n) = True"
| "isNumber v = False"

fun isString :: "jsval \<Rightarrow> bool" where
  "isString (Str s) = True"
| "isString v = False"

fun isArray :: "jsval \<Rightarrow> bool" where
  "isArray (Arr xs) = True"
| "isArray v = False"

fun isObject :: "jsval \<Rightarrow> bool" where
  "isObject (Arr xs) = True"
| "isObject (Obj kvs) = True"
| "isObject v = False"

fun isUndefined :: "jsval \<Rightarrow> bool" where
  "isUndefined Undefined = True"
| "isUndefined v = False"

fun isEmpty :: "jsval \<Rightarrow> bool" where
  "isEmpty (Str s) = (s = [])"
| "isEmpty (Arr xs) = (xs = [])"
| "isEmpty (Obj kvs) = (kvs = [])"
| "isEmpty v = True"

text \<open>Truthiness, as tested by \<^verbatim>\<open>if (v)\<close> and \<^verbatim>\<open>!v\<close>.\<close>

fun truthy :: "jsval \<Rightarrow> bool" where
  "truthy Undefined = False"
| "truthy Null = False"
| "truthy (Bool b) = b"
| "truthy (Num n) = (n \<noteq> 0)"
| "truthy (Str s) = (s \<noteq> [])"
| "truthy (Arr xs) = True"
| "truthy (Obj kvs) = True"

subsection \<open>Numbers and strings\<close>

definition digit_char :: "nat \<Rightarrow> char" where
  "digit_char d = ''0123456789'' ! d"

fun show_nat :: "nat \<Rightarrow> string" where
  "show_nat n = (if n < 10 then [digit_char n] else show_nat (n div 10) @ [digit_char (n mod 10)])"

declare show_nat.simps [simp del]

definition show_int :: "int \<Rightarrow> string" where
  "show_int i = (if i < 0 then CHR ''-'' # show_nat (nat (- i)) else show_nat (nat i))"

definition is_digit :: "char \<Rightarrow> bool" where
  "is_digit c = (48 \<le> (of_char c :: nat) \<and> (of_char c :: nat) \<le> 57)"

text \<open>
  A property key that is an array index: a decimal numeral without a leading zero, of a
  number below \<^verbatim>\<open>2^32 - 1\<close>.
\<close>

definition decimal_value :: "string \<Rightarrow> nat" where
  "decimal_value k = foldl (\<lambda>n c. 10 * n + ((of_char c :: nat) - 48)) 0 k"

definition index_of_key :: "string \<Rightarrow> nat option" where
  "index_of_key k =
     (if k \<noteq> [] \<and> list_all is_digit k \<and> (hd k \<noteq> CHR ''0'' \<or> length k = 1)
         \<and> decimal_value k < 4294967295
      then Some (decimal_value k)
      else None)"

text \<open>\<^verbatim>\<open>String(v)\<close>, also the conversion made by \<^verbatim>\<open>'' + v\<close> and by \<^verbatim>\<open>obj[v]\<close>.\<close>

fun join :: "string \<Rightarrow> string list \<Rightarrow> string" where
  "join sep [] = []"
| "join sep [x] = x"
| "join sep (x # y # ys) = x @ sep @ join sep (y # ys)"

fun to_string :: "jsval \<Rightarrow> string" where
  "to_string Undefined = ''undefined''"
| "to_string Null = ''null''"
| "to_string (Bool b) = (if b then ''true'' else ''false'')"
| "to_string (Num n) = show_int n"
| "to_string (Str s) = s"
| "to_string (Arr xs) =
     join '','' (map (\<lambda>x. if x = Undefined \<or> x = Null then [] else to_string x) xs)"
| "to_string (Obj kvs) = ''[object Object]''"

text \<open>\<^verbatim>\<open>toUpperCase\<close> on the letters a to z; other characters are kept.\<close>

definition upper_char :: "char \<Rightarrow> char" where
  "upper_char c =
     (case map_of (zip ''abcdefghijklmnopqrstuvwxyz'' ''ABCDEFGHIJKLMNOPQRSTUVWXYZ'') c of
        Some u \<Rightarrow> u
      | None \<Rightarrow> c)"

definition toUpperCase :: "string \<Rightarrow> string" where
  "toUpperCase s = map upper_char s"

text \<open>The class \<^verbatim>\<open>\s\<close> on 8-bit characters: tab to carriage return, space, no-break space.\<close>

definition is_space :: "char \<Rightarrow> bool" where
  "is_space c = ((of_char c :: nat) \<in> {9, 10, 11, 12, 13, 32, 160})"

subsection \<open>Property access\<close>

text \<open>Reading the field \<open>k\<close> of a plain object: \<^verbatim>\<open>undefined\<close> when it has none.\<close>

fun lookup :: "(string \<times> jsval) list \<Rightarrow> string \<Rightarrow> jsval" where
  "lookup kvs k = (case map_of kvs k of Some v \<Rightarrow> v | None \<Rightarrow> Undefined)"

text \<open>\<^verbatim>\<open>v[i]\<close> for a number \<open>i\<close>, on a value that is neither \<^verbatim>\<open>undefined\<close> nor \<^verbatim>\<open>null\<close>.\<close>

fun index_prop :: "jsval \<Rightarrow> nat \<Rightarrow> jsval" where
  "index_prop (Arr xs) i = (if i < length xs then xs ! i else Undefined)"
| "index_prop (Str s) i = (if i < length s then Str [s ! i] else Undefined)"
| "index_prop (Obj kvs) i = lookup kvs (show_nat i)"
| "index_prop v i = Undefined"

text \<open>\<^verbatim>\<open>v[k]\<close> for a string \<open>k\<close>, on a value that is neither \<^verbatim>\<open>undefined\<close> nor \<^verbatim>\<open>null\<close>.\<close>

fun get_prop :: "jsval \<Rightarrow> string \<Rightarrow> jsval" where
  "get_prop (Obj kvs) k = lookup kvs k"
| "get_prop (Arr xs) k =
     (if k = ''length'' then Num (int (length xs))
      else case index_of_key k of Some i \<Rightarrow> index_prop (Arr xs) i | None \<Rightarrow> Undefined)"
| "get_prop (Str s) k =
     (if k = ''length'' then Num (int (length s))
      else case index_of_key k of Some i \<Rightarrow> index_prop (Str s) i | None \<Rightarrow> Undefined)"
| "get_prop v k = Undefined"

text \<open>
  \<^verbatim>\<open>obj[k] = v\<close> on a plain object: an existing field keeps its place; a new index key
  goes among the index keys, which are enumerated first in ascending order; any other new
  key goes last.
\<close>

fun insert_index :: "nat \<Rightarrow> string \<Rightarrow> jsval \<Rightarrow> (string \<times> jsval) list \<Rightarrow> (string \<times> jsval) list" where
  "insert_index n k v [] = [(k, v)]"
| "insert_index n k v ((k', v') # kvs) =
     (case index_of_key k' of
        Some m \<Rightarrow> if m < n then (k', v') # insert_index n k v kvs else (k, v) # (k', v') # kvs
      | None \<Rightarrow> (k, v) # (k', v') # kvs)"

definition set_prop :: "(string \<times> jsval) list \<Rightarrow> string \<Rightarrow> jsval \<Rightarrow> (string \<times> jsval) list" where
  "set_prop kvs k v =
     (if k \<in> fst ` set kvs then map (\<lambda>(k', v'). if k' = k then (k', v) else (k', v')) kvs
      else case index_of_key k of Some n \<Rightarrow> insert_index n k v kvs | None \<Rightarrow> kvs @ [(k, v)])"

text \<open>
  The elements \<^verbatim>\<open>_.each\<close> hands to its callback, as (value, key) reversed to (key, value):
  array elements with their index, the characters of a string with their index, object
  fields with their name; nothing for the other values. underscore takes every object
  whose \<^verbatim>\<open>length\<close> is a number from 0 to \<^verbatim>\<open>2^53 - 1\<close> for array-like: a plain object with
  such a field is walked by index, \<^verbatim>\<open>obj[0]\<close> to \<^verbatim>\<open>obj[length - 1]\<close>, and its named fields
  are not visited.
\<close>

definition array_like_length :: "(string \<times> jsval) list \<Rightarrow> nat option" where
  "array_like_length kvs =
     (case lookup kvs ''length'' of
        Num n \<Rightarrow> if 0 \<le> n \<and> n \<le> 9007199254740991 then Some (nat n) else None
      | _ \<Rightarrow> None)"

fun each_entries :: "jsval \<Rightarrow> (jsval \<times> jsval) list" where
  "each_entries (Arr xs) = map (\<lambda>i. (Num (int i), xs ! i)) [0..<length xs]"
| "each_entries (Obj kvs) =
     (case array_like_length kvs of
        Some n \<Rightarrow> map (\<lambda>i. (Num (int i), lookup kvs (show_nat i))) [0..<n]
      | None \<Rightarrow> map (\<lambda>(k, v). (Str k, v)) kvs)"
| "each_entries (Str s) = map (\<lambda>i. (Num (int i), Str [s ! i])) [0..<length s]"
| "each_entries v = []"

section \<open>Collaborators\<close>

text \<open>
  The driver package and the validation package are not part of this repository: they are
  parameters of the model. \<open>escapeId\<close> and \<open>escape\<close> are \<^verbatim>\<open>mysql.escapeId\<close> and
  \<^verbatim>\<open>mysql.escape\<close>; \<^verbatim>\<open>mysql.format\<close> replaces \<^verbatim>\<open>??\<close> by the escaped identifier and
  \<^verbatim>\<open>?\<close> by the escaped value, so the templates of \<^verbatim>\<open>base.js\<close> are written with these two
  directly. \<open>validatejs\<close> is \<^verbatim>\<open>validate(data, constraints)\<close> of validate.js, which returns
  \<^verbatim>\<open>undefined\<close> or the violations. \<open>db_query\<close> is what the connection hands to the completion
  callback of \<^verbatim>\<open>query(sql, callback)\<close>: an error, or the array of result rows.
\<close>

datatype reply = Failed jsval | Rows "jsval list"

record env =
  escapeId :: "jsval \<Rightarrow> string"
  escape :: "jsval \<Rightarrow> string"
  validatejs :: "jsval \<Rightarrow> jsval \<Rightarrow> jsval"
  db_query :: "string \<Rightarrow> reply"

section \<open>The table handle\<close>

text \<open>
  \<open>table\<close> and \<open>pk\<close> are the constructor's options as given (\<open>pk\<close> a field name or an array
  of field names). \<open>constraints\<close> maps each field to the address of its rule object in the
  store, since \<^verbatim>\<open>validate\<close> works on those objects by reference.
\<close>

record handle =
  table :: jsval
  pk :: jsval
  constraints :: "(string \<times> nat) list"

section \<open>Primary-key resolver\<close>

definition missing_msg :: "jsval \<Rightarrow> string" where
  "missing_msg key = ''missing '' @ [CHR 0x22] @ to_string key @ [CHR 0x22] @ '' for composite primary key''"

text \<open>
  The loop \<^verbatim>\<open>_.each(this.pk, function(key) { if (!data[key]) throw ...; condition[key] = data[key]; })\<close>.
\<close>

fun pk_by_name :: "jsval \<Rightarrow> jsval list \<Rightarrow> (string \<times> jsval) list \<Rightarrow> exn + (string \<times> jsval) list" where
  "pk_by_name data [] condition = Inr condition"
| "pk_by_name data (key # keys) condition =
     (if \<not> truthy (get_prop data (to_string key))
      then Inl (DbError ''invalid_call'' (Str (missing_msg key)))
      else pk_by_name data keys (set_prop condition (to_string key) (get_prop data (to_string key))))"

text \<open>
  The loop \<^verbatim>\<open>_.each(this.pk, function(key, i) { if (!data[i]) throw ...; condition[key] = data[i]; })\<close>
  of the second branch, where \<open>data\<close> is not an object; \<^verbatim>\<open>data[i]\<close> on \<^verbatim>\<open>undefined\<close> or
  \<^verbatim>\<open>null\<close> is a TypeError.
\<close>

fun pk_by_index :: "jsval \<Rightarrow> jsval list \<Rightarrow> nat \<Rightarrow> (string \<times> jsval) list \<Rightarrow> exn + (string \<times> jsval) list" where
  "pk_by_index data [] i condition = Inr condition"
| "pk_by_index data (key # keys) i condition =
     (if data = Undefined \<or> data = Null then Inl TypeError
      else if \<not> truthy (index_prop data i)
      then Inl (DbError ''invalid_call'' (Str (missing_msg key)))
      else pk_by_index data keys (Suc i) (set_prop condition (to_string key) (index_prop data i)))"

text \<open>
  \<^verbatim>\<open>BaseModel.prototype.buildPkCondition\<close>. The test of the second branch is
  \<^verbatim>\<open>_.isArray()\<close>, called without an argument, that is on \<^verbatim>\<open>undefined\<close>.
\<close>

definition buildPkCondition :: "jsval \<Rightarrow> jsval \<Rightarrow> exn + jsval" where
  "buildPkCondition pkspec data =
     (if isArray pkspec then
        (if isObject data then
           map_sum id Obj (pk_by_name data (map snd (each_entries pkspec)) [])
         else if isArray Undefined then
           map_sum id Obj (pk_by_index data (map snd (each_entries pkspec)) 0 [])
         else Inl (DbError ''invalid_call'' (Str ''invalid input for composite primary key'')))
      else
        (if isObject data then
           (if isUndefined (get_prop data (to_string pkspec))
            then Inl (Error ''missing primary key'')
            else Inr (Obj (set_prop [] (to_string pkspec) (get_prop data (to_string pkspec)))))
         else Inr (Obj (set_prop [] (to_string pkspec) data))))"

section \<open>Condition compiler\<close>

text \<open>The test \<^verbatim>\<open>/^[^\s=<>"]+$/\<close>.\<close>

definition pk_shaped :: "string \<Rightarrow> bool" where
  "pk_shaped s =
     (s \<noteq> [] \<and> list_all (\<lambda>c. \<not> is_space c \<and> c \<noteq> CHR ''='' \<and> c \<noteq> CHR ''<'' \<and> c \<noteq> CHR ''>'' \<and> c \<noteq> CHR 0x22) s)"

text \<open>The test \<^verbatim>\<open>/[%?]/\<close> on \<^verbatim>\<open>String(value)\<close>.\<close>

definition has_wildcard :: "jsval \<Rightarrow> bool" where
  "has_wildcard v = (CHR ''%'' \<in> set (to_string v) \<or> CHR ''?'' \<in> set (to_string v))"

text \<open>\<^verbatim>\<open>s.toUpperCase()\<close>, a TypeError when \<open>s\<close> is not a string.\<close>

fun upper_of :: "jsval \<Rightarrow> exn + string" where
  "upper_of (Str s) = Inr (toUpperCase s)"
| "upper_of v = Inl TypeError"

text \<open>
  The first half of the loop body: operator, conjunction and value of one item, as
  (conjunction, operator, value).
\<close>

definition item_parts :: "jsval \<Rightarrow> exn + (string \<times> string \<times> jsval)" where
  "item_parts value =
     (case value of
        Arr vs \<Rightarrow>
          (case (if length vs = 3 then upper_of (vs ! 2) else Inr ''AND'') of
             Inl e \<Rightarrow> Inl e
           | Inr conjn \<Rightarrow>
               if length vs \<ge> 2 then
                 (case upper_of (vs ! 0) of
                    Inl e \<Rightarrow> Inl e
                  | Inr operator \<Rightarrow> Inr (conjn, operator, vs ! 1))
               else Inl (DbError ''invalid_param'' (Str ''not enough params for condition'')))
      | _ \<Rightarrow> Inr (''AND'', ''='', value))"

text \<open>
  One turn of the loop on \<open>item\<close>, with the counter \<open>i\<close> and the text \<open>str\<close> built so far;
  \<^verbatim>\<open>item[0]\<close> on \<^verbatim>\<open>undefined\<close> or \<^verbatim>\<open>null\<close> is a TypeError.
\<close>

definition compile_item :: "env \<Rightarrow> jsval \<Rightarrow> nat \<Rightarrow> string \<Rightarrow> exn + string" where
  "compile_item L item i str =
     (if item = Undefined \<or> item = Null then Inl TypeError
      else
        let key = index_prop item 0; value = index_prop item 1 in
        case item_parts value of
          Inl e \<Rightarrow> Inl e
        | Inr (conjn, operator, value) \<Rightarrow>
            let value = (if operator = ''LIKE'' \<and> \<not> has_wildcard value
                         then Str (''%'' @ to_string value @ ''%'') else value);
                str = (if i > 0 then str @ '' '' @ conjn @ '' '' else str)
            in Inr (str @ ''('' @ escapeId L key @ '' '' @ operator @ '' '' @ escape L value @ '')''))"

fun compile_items :: "env \<Rightarrow> jsval list \<Rightarrow> nat \<Rightarrow> string \<Rightarrow> exn + string" where
  "compile_items L [] i str = Inr str"
| "compile_items L (item # items) i str =
     (case compile_item L item i str of
        Inl e \<Rightarrow> Inl e
      | Inr str' \<Rightarrow> compile_items L items (Suc i) str')"

text \<open>
  The part of \<^verbatim>\<open>compileConditions\<close> after the scalar and raw-string tests: an object that
  is not an array becomes the array of its [key, value] pairs (the empty object returns the
  empty string at once), then the loop runs.
\<close>

definition compile_descriptor :: "env \<Rightarrow> jsval \<Rightarrow> exn + string" where
  "compile_descriptor L conditions =
     (if isObject conditions \<and> \<not> isArray conditions \<and> isEmpty conditions then Inr []
      else
        let conditions = (if isObject conditions \<and> \<not> isArray conditions
                          then Arr (map (\<lambda>(key, value). Arr [key, value]) (each_entries conditions))
                          else conditions)
        in case compile_items L (map snd (each_entries conditions)) 0 [] of
             Inl e \<Rightarrow> Inl e
           | Inr str \<Rightarrow> Inr (if str \<noteq> [] then '' WHERE '' @ str else []))"

text \<open>
  \<^verbatim>\<open>BaseModel.prototype.compileConditions\<close>. The second test reads
  \<^verbatim>\<open>_.isString(conditions) && condition.length > 0\<close>: the identifier \<^verbatim>\<open>condition\<close> is declared
  nowhere in the module, so evaluating the right operand throws a ReferenceError.
\<close>

definition compileConditions :: "env \<Rightarrow> jsval \<Rightarrow> jsval \<Rightarrow> exn + string" where
  "compileConditions L pkspec conditions =
     (if isNumber conditions \<or> (isString conditions \<and> pk_shaped (to_string conditions))
      then compile_descriptor L (Obj (set_prop [] (to_string pkspec) conditions))
      else if isString conditions then Inl (ReferenceError ''condition'')
      else compile_descriptor L conditions)"



section \<open>Option compiler\<close>

text \<open>
  An options argument: omitted, a raw string, an object literal written at the call (no
  one else holds it), or an object of the caller's, held in the store at an address.
\<close>

datatype options = NoOptions | RawOptions string | Literal "(string \<times> jsval) list" | OptionsAt nat

text \<open>The conversion \<^verbatim>\<open>Array.prototype.join\<close> applies to an element.\<close>

definition elem_string :: "jsval \<Rightarrow> string" where
  "elem_string x = (if x = Undefined \<or> x = Null then [] else to_string x)"

text \<open>\<^verbatim>\<open>compileOptions\<close> on an object with the given fields.\<close>

definition compile_fields :: "(string \<times> jsval) list \<Rightarrow> string" where
  "compile_fields flds =
     (let str = (if truthy (lookup flds ''orderBy'')
                 then '' ORDER BY '' @ to_string (lookup flds ''orderBy'') else [])
      in if truthy (lookup flds ''limit'') then
           let limit =
                (if isArray (lookup flds ''limit'')
                 then map snd (each_entries (lookup flds ''limit''))
                 else (if truthy (lookup flds ''start'') then [lookup flds ''start''] else [])
                    @ (if truthy (lookup flds ''limit'') then [lookup flds ''limit''] else []))
           in str @ '' LIMIT '' @ join '', '' (map elem_string limit)
         else str)"

definition compileOptions :: "(nat \<Rightarrow> (string \<times> jsval) list) \<Rightarrow> options \<Rightarrow> string" where
  "compileOptions H opts =
     (case opts of
        NoOptions \<Rightarrow> []
      | RawOptions s \<Rightarrow> s
      | Literal flds \<Rightarrow> compile_fields flds
      | OptionsAt a \<Rightarrow> compile_fields (H a))"

section \<open>Store, deferred results and the two wrapping layers\<close>

text \<open>
  A deferred result is modelled by its settlement. The world holds what a call can change:
  the store of shared objects, the statements handed to the driver, and the invocations of
  completion callbacks, each in order. A call returns \<open>Inl e\<close> when it throws \<open>e\<close>
  synchronously and \<open>Inr p\<close> when it returns the deferred result \<open>p\<close>.
\<close>

datatype 'a promise = Resolved 'a | Rejected exn

datatype cbarg = Val jsval | Err exn

datatype invocation = Invoke nat "cbarg list"

record world =
  heap :: "nat \<Rightarrow> (string \<times> jsval) list"
  sent :: "string list"
  calls :: "invocation list"

text \<open>
  The method \<^verbatim>\<open>query\<close> installed by \<^verbatim>\<open>bindPromise\<close>: it passes the statement and a
  callback to the driver; the callback rejects on an error and resolves with the rows
  otherwise.
\<close>

definition settle_reply :: "reply \<Rightarrow> jsval list promise" where
  "settle_reply r = (case r of Failed err \<Rightarrow> Rejected (DriverError err) | Rows rows \<Rightarrow> Resolved rows)"

definition query :: "env \<Rightarrow> string \<Rightarrow> world \<Rightarrow> jsval list promise \<times> world" where
  "query E sql w = (settle_reply (db_query E sql), w\<lparr>sent := sent w @ [sql]\<rparr>)"

text \<open>
  The function \<^verbatim>\<open>newMethod\<close> installed by \<^verbatim>\<open>bindCallback\<close>. A call is given by its
  arguments without the trailing callback, and the trailing callback if the last argument
  is a function. \<open>conv\<close> turns the resolved value into the value passed to the callback.
\<close>

definition newMethod ::
  "('r \<Rightarrow> jsval) \<Rightarrow> ('a \<Rightarrow> world \<Rightarrow> (exn + 'r promise) \<times> world) \<Rightarrow> 'a \<Rightarrow> nat option \<Rightarrow> world
     \<Rightarrow> (exn + 'r promise) \<times> world" where
  "newMethod conv oldMethod args cb w =
     (case oldMethod args w of
        (Inl e, w') \<Rightarrow> (Inl e, w')
      | (Inr promise, w') \<Rightarrow>
          (case cb of
             None \<Rightarrow> (Inr promise, w')
           | Some c \<Rightarrow>
               (Inr promise,
                case promise of
                  Resolved data \<Rightarrow> w'\<lparr>calls := calls w' @ [Invoke c [Val Null, Val (conv data)]]\<rparr>
                | Rejected error \<Rightarrow> w'\<lparr>calls := calls w' @ [Invoke c [Err error]]\<rparr>)))"

text \<open>\<^verbatim>\<open>promise.then(f)\<close> for a callback \<open>f\<close> that throws or returns a deferred result.\<close>

definition then_promise ::
  "'a promise \<Rightarrow> ('a \<Rightarrow> world \<Rightarrow> (exn + 'b promise) \<times> world) \<Rightarrow> world \<Rightarrow> 'b promise \<times> world" where
  "then_promise p f w =
     (case p of
        Rejected e \<Rightarrow> (Rejected e, w)
      | Resolved v \<Rightarrow>
          (case f v w of
             (Inl e, w') \<Rightarrow> (Rejected e, w')
           | (Inr p', w') \<Rightarrow> (p', w')))"

text \<open>\<^verbatim>\<open>promise.then(f)\<close> for a callback \<open>f\<close> that returns a plain value.\<close>

definition then_value :: "'a promise \<Rightarrow> ('a \<Rightarrow> 'b) \<Rightarrow> 'b promise" where
  "then_value p f = (case p of Rejected e \<Rightarrow> Rejected e | Resolved v \<Rightarrow> Resolved (f v))"

section \<open>Validation gate\<close>

text \<open>The constraint mapping as the validator reads it through the store.\<close>

definition view :: "(nat \<Rightarrow> (string \<times> jsval) list) \<Rightarrow> (string \<times> nat) list \<Rightarrow> jsval" where
  "view H cs = Obj (map (\<lambda>(field, a). (field, Obj (H a))) cs)"

text \<open>
  \<^verbatim>\<open>_.extend(destination, source)\<close> on the fields of an object: every enumerable field of
  the source is assigned; a source that is not an object has none (underscore from 1.8).
\<close>

fun source_fields :: "jsval \<Rightarrow> (string \<times> jsval) list" where
  "source_fields (Obj kvs) = kvs"
| "source_fields (Arr xs) = map (\<lambda>i. (show_nat i, xs ! i)) [0..<length xs]"
| "source_fields v = []"

definition extend :: "(string \<times> jsval) list \<Rightarrow> jsval \<Rightarrow> (string \<times> jsval) list" where
  "extend destination source = foldl (\<lambda>obj (k, v). set_prop obj k v) destination (source_fields source)"

text \<open>
  The loop \<^verbatim>\<open>_.each(constraints2, function(value, key) { _.extend(constraints[key], value); })\<close>
  where \<^verbatim>\<open>constraints\<close> is the shallow copy \<^verbatim>\<open>_.clone(this.constraints)\<close>: the copy has the
  handle's fields and each holds the same rule object as the handle's, so
  \<^verbatim>\<open>constraints[key]\<close> is the object at the address the handle has for \<open>key\<close>. For a key the
  handle does not have, \<^verbatim>\<open>_.extend(undefined, value)\<close> does nothing (underscore from 1.7).
\<close>

fun merge_constraints ::
  "(string \<times> nat) list \<Rightarrow> (jsval \<times> jsval) list \<Rightarrow> (nat \<Rightarrow> (string \<times> jsval) list) \<Rightarrow> (nat \<Rightarrow> (string \<times> jsval) list)" where
  "merge_constraints cs [] H = H"
| "merge_constraints cs ((key, value) # rest) H =
     (case map_of cs (to_string key) of
        None \<Rightarrow> merge_constraints cs rest H
      | Some a \<Rightarrow> merge_constraints cs rest (H(a := extend (H a) value)))"

text \<open>\<^verbatim>\<open>BaseModel.prototype.validate\<close>.\<close>

definition validate :: "env \<Rightarrow> handle \<Rightarrow> jsval \<Rightarrow> jsval \<Rightarrow> world \<Rightarrow> jsval \<times> world" where
  "validate E h data constraints2 w =
     (if constraints2 = Bool True then (validatejs E data (view (heap w) (constraints h)), w)
      else
        let H = merge_constraints (constraints h) (each_entries constraints2) (heap w)
        in (validatejs E data (view H (constraints h)), w\<lparr>heap := H\<rparr>))"

section \<open>CRUD facade\<close>

text \<open>
  The methods of the prototype keep their names; \<open>bound_search\<close>, \<open>bound_find\<close> and so on are
  the wrappers the constructor installs over them with \<^verbatim>\<open>bindCallback\<close>, which is what
  \<^verbatim>\<open>this.search\<close>, \<^verbatim>\<open>this.find\<close>, ... refer to on a handle; \<^verbatim>\<open>find\<close> and \<^verbatim>\<open>insert\<close> are
  \<open>find_op\<close> and \<open>insert_op\<close> here. The \<^verbatim>\<open>console.log\<close> lines are left out.
\<close>

definition search :: "env \<Rightarrow> handle \<Rightarrow> jsval \<Rightarrow> options \<Rightarrow> world \<Rightarrow> (exn + jsval list promise) \<times> world" where
  "search E h conditions opts w =
     (let sql = ''SELECT * FROM '' @ escapeId E (table h) in
      case compileConditions E (pk h) conditions of
        Inl e \<Rightarrow> (Inl e, w)
      | Inr wh \<Rightarrow>
          let sql = sql @ wh @ compileOptions (heap w) opts;
              (p, w') = query E sql w
          in (Inr p, w'))"

definition bound_search ::
  "env \<Rightarrow> handle \<Rightarrow> jsval \<times> options \<Rightarrow> nat option \<Rightarrow> world \<Rightarrow> (exn + jsval list promise) \<times> world" where
  "bound_search E h = newMethod Arr (\<lambda>(conditions, opts). search E h conditions opts)"

text \<open>
  \<^verbatim>\<open>find\<close>: \<^verbatim>\<open>options = options || {}\<close> replaces an omitted argument and the empty string
  by a new object; \<^verbatim>\<open>options.limit = 1\<close> assigns the field on an object and is ignored on a
  string.
\<close>

definition first_row :: "jsval list \<Rightarrow> jsval" where
  "first_row rows = (case rows of [] \<Rightarrow> Null | row # _ \<Rightarrow> row)"

definition find_op :: "env \<Rightarrow> handle \<Rightarrow> jsval \<Rightarrow> options \<Rightarrow> world \<Rightarrow> (exn + jsval promise) \<times> world" where
  "find_op E h conditions opts w =
     (let (opts, w1) =
        (case opts of
           NoOptions \<Rightarrow> (Literal (set_prop [] ''limit'' (Num 1)), w)
         | RawOptions s \<Rightarrow>
             if s = [] then (Literal (set_prop [] ''limit'' (Num 1)), w) else (RawOptions s, w)
         | Literal flds \<Rightarrow> (Literal (set_prop flds ''limit'' (Num 1)), w)
         | OptionsAt a \<Rightarrow>
             (OptionsAt a, w\<lparr>heap := (heap w)(a := set_prop (heap w a) ''limit'' (Num 1))\<rparr>))
      in case bound_search E h (conditions, opts) None w1 of
           (Inl e, w2) \<Rightarrow> (Inl e, w2)
         | (Inr p, w2) \<Rightarrow> (Inr (then_value p first_row), w2))"

definition bound_find ::
  "env \<Rightarrow> handle \<Rightarrow> jsval \<times> options \<Rightarrow> nat option \<Rightarrow> world \<Rightarrow> (exn + jsval promise) \<times> world" where
  "bound_find E h = newMethod id (\<lambda>(conditions, opts). find_op E h conditions opts)"

definition findByPk :: "env \<Rightarrow> handle \<Rightarrow> jsval \<Rightarrow> options \<Rightarrow> world \<Rightarrow> (exn + jsval promise) \<times> world" where
  "findByPk E h conditions opts w = bound_find E h (conditions, opts) None w"

definition bound_findByPk ::
  "env \<Rightarrow> handle \<Rightarrow> jsval \<times> options \<Rightarrow> nat option \<Rightarrow> world \<Rightarrow> (exn + jsval promise) \<times> world" where
  "bound_findByPk E h = newMethod id (\<lambda>(conditions, opts). findByPk E h conditions opts)"

definition remove :: "env \<Rightarrow> handle \<Rightarrow> jsval \<Rightarrow> world \<Rightarrow> (exn + jsval list promise) \<times> world" where
  "remove E h conditions w =
     (let sql = ''DELETE FROM '' @ escapeId E (table h) in
      case compileConditions E (pk h) conditions of
        Inl e \<Rightarrow> (Inl e, w)
      | Inr wh \<Rightarrow>
          let sql = sql @ wh;
              (p, w') = query E sql w
          in (Inr p, w'))"

definition bound_delete ::
  "env \<Rightarrow> handle \<Rightarrow> jsval \<Rightarrow> nat option \<Rightarrow> world \<Rightarrow> (exn + jsval list promise) \<times> world" where
  "bound_delete E h = newMethod Arr (remove E h)"

text \<open>\<^verbatim>\<open>key in obj\<close> and \<^verbatim>\<open>_.pick(data, keys)\<close>, which walks the keys in their order.\<close>

fun has_prop :: "jsval \<Rightarrow> string \<Rightarrow> bool" where
  "has_prop (Obj kvs) k = (k \<in> fst ` set kvs)"
| "has_prop (Arr xs) k =
     (k = ''length'' \<or> (case index_of_key k of Some i \<Rightarrow> i < length xs | None \<Rightarrow> False))"
| "has_prop (Str s) k =
     (k = ''length'' \<or> (case index_of_key k of Some i \<Rightarrow> i < length s | None \<Rightarrow> False))"
| "has_prop v k = False"

definition pick :: "jsval \<Rightarrow> string list \<Rightarrow> (string \<times> jsval) list" where
  "pick data keys =
     foldl (\<lambda>result key. if has_prop data key then set_prop result key (get_prop data key) else result)
       [] keys"

definition insert_op :: "env \<Rightarrow> handle \<Rightarrow> jsval \<Rightarrow> jsval \<Rightarrow> world \<Rightarrow> (exn + jsval list promise) \<times> world" where
  "insert_op E h data constraints2 w =
     (let (errors, w1) = (if truthy constraints2 then validate E h data constraints2 w else (Undefined, w)) in
      if truthy constraints2 \<and> truthy errors then (Inl (DbError ''validition'' errors), w1)
      else
        let data = Obj (pick data (map fst (constraints h)));
            sql = ''INSERT INTO '' @ escapeId E (table h) @ '' SET '' @ escape E data;
            (p, w') = query E sql w1
        in (Inr p, w'))"

definition bound_insert ::
  "env \<Rightarrow> handle \<Rightarrow> jsval \<times> jsval \<Rightarrow> nat option \<Rightarrow> world \<Rightarrow> (exn + jsval list promise) \<times> world" where
  "bound_insert E h = newMethod Arr (\<lambda>(data, constraints2). insert_op E h data constraints2)"

text \<open>\<^verbatim>\<open>update\<close> calls the validator itself, on the conditions.\<close>

definition update :: "env \<Rightarrow> handle \<Rightarrow> jsval \<Rightarrow> jsval \<Rightarrow> jsval \<Rightarrow> world \<Rightarrow> (exn + jsval list promise) \<times> world" where
  "update E h conditions data constraints2 w =
     (if truthy constraints2 \<and> truthy (validatejs E conditions constraints2)
      then (Inl (DbError ''validition'' (validatejs E conditions constraints2)), w)
      else
        let data = Obj (pick data (map fst (constraints h)));
            sql = ''UPDATE '' @ escapeId E (table h) @ '' SET '' @ escape E data
        in case compileConditions E (pk h) conditions of
             Inl e \<Rightarrow> (Inl e, w)
           | Inr wh \<Rightarrow>
               let sql = sql @ wh;
                   (p, w') = query E sql w
               in (Inr p, w'))"

definition bound_update ::
  "env \<Rightarrow> handle \<Rightarrow> jsval \<times> jsval \<times> jsval \<Rightarrow> nat option \<Rightarrow> world \<Rightarrow> (exn + jsval list promise) \<times> world" where
  "bound_update E h = newMethod Arr (\<lambda>(conditions, data, constraints2). update E h conditions data constraints2)"

definition replace :: "env \<Rightarrow> handle \<Rightarrow> jsval \<Rightarrow> jsval \<Rightarrow> world \<Rightarrow> (exn + jsval list promise) \<times> world" where
  "replace E h data constraints2 w =
     (case buildPkCondition (pk h) data of
        Inl e \<Rightarrow> (Inl e, w)
      | Inr condition \<Rightarrow>
          if isUndefined condition
          then (Inl (DbError ''invalid_param'' (Str ''missing primary key'')), w)
          else
            (case bound_find E h (condition, NoOptions) None w of
               (Inl e, w1) \<Rightarrow> (Inl e, w1)
             | (Inr p, w1) \<Rightarrow>
                 let (p', w2) =
                       then_promise p
                         (\<lambda>row. if truthy row
                                then bound_update E h (condition, data, constraints2) None
                                else bound_insert E h (data, constraints2) None) w1
                 in (Inr p', w2)))"

definition bound_replace ::
  "env \<Rightarrow> handle \<Rightarrow> jsval \<times> jsval \<Rightarrow> nat option \<Rightarrow> world \<Rightarrow> (exn + jsval list promise) \<times> world" where
  "bound_replace E h = newMethod Arr (\<lambda>(data, constraints2). replace E h data constraints2)"

text \<open>
  A call of one of the seven methods the constructor wraps, on a handle: the method with
  its arguments, and the trailing callback if there is one. The resolved value is given
  as the JavaScript value the caller receives.
\<close>

datatype operation =
    Search jsval options
  | Find jsval options
  | FindByPk jsval options
  | Insert jsval jsval
  | Update jsval jsval jsval
  | Replace jsval jsval
  | Delete jsval

definition as_value :: "('r \<Rightarrow> jsval) \<Rightarrow> (exn + 'r promise) \<times> world \<Rightarrow> (exn + jsval promise) \<times> world" where
  "as_value conv r = (map_sum id (\<lambda>p. then_value p conv) (fst r), snd r)"

fun call :: "env \<Rightarrow> handle \<Rightarrow> operation \<Rightarrow> nat option \<Rightarrow> world \<Rightarrow> (exn + jsval promise) \<times> world" where
  "call E h (Search conditions opts) cb w = as_value Arr (bound_search E h (conditions, opts) cb w)"
| "call E h (Find conditions opts) cb w = bound_find E h (conditions, opts) cb w"
| "call E h (FindByPk conditions opts) cb w = bound_findByPk E h (conditions, opts) cb w"
| "call E h (Insert data constraints2) cb w = as_value Arr (bound_insert E h (data, constraints2) cb w)"
| "call E h (Update conditions data constraints2) cb w =
     as_value Arr (bound_update E h (conditions, data, constraints2) cb w)"
| "call E h (Replace data constraints2) cb w = as_value Arr (bound_replace E h (data, constraints2) cb w)"
| "call E h (Delete conditions) cb w = as_value Arr (bound_delete E h conditions cb w)"

section \<open>A concrete set of collaborators\<close>

text \<open>
  For running the model on examples: escaping in the manner of the driver (identifiers in
  backticks, strings in single quotes with quotes and backslashes escaped, \<^verbatim>\<open>NULL\<close> for
  \<^verbatim>\<open>undefined\<close> and \<^verbatim>\<open>null\<close>, lists and field assignments separated by commas), a
  validator that finds no violation, and a database given by its answer to each statement.
\<close>

definition quote_id :: "string \<Rightarrow> string" where
  "quote_id s =
     ''`'' @ concat (map (\<lambda>c. if c = CHR ''`'' then ''``'' else if c = CHR ''.'' then ''`.`'' else [c]) s) @ ''`''"

fun sql_escapeId :: "jsval \<Rightarrow> string" where
  "sql_escapeId (Arr xs) = join '', '' (map sql_escapeId xs)"
| "sql_escapeId v = quote_id (to_string v)"

definition quote_str :: "string \<Rightarrow> string" where
  "quote_str s =
     [CHR 0x27]
     @ concat (map (\<lambda>c. if c = CHR 0x27 \<or> c = CHR 0x5C \<or> c = CHR 0x22 then [CHR 0x5C, c] else [c]) s)
     @ [CHR 0x27]"

fun sql_escape :: "jsval \<Rightarrow> string" where
  "sql_escape Undefined = ''NULL''"
| "sql_escape Null = ''NULL''"
| "sql_escape (Bool b) = (if b then ''true'' else ''false'')"
| "sql_escape (Num n) = show_int n"
| "sql_escape (Str s) = quote_str s"
| "sql_escape (Arr xs) =
     join '', '' (map (\<lambda>x. if isArray x then ''('' @ sql_escape x @ '')'' else sql_escape x) xs)"
| "sql_escape (Obj kvs) = join '', '' (map (\<lambda>(k, v). quote_id k @ '' = '' @ sql_escape v) kvs)"

definition sample_env :: "(string \<Rightarrow> reply) \<Rightarrow> env" where
  "sample_env db =
     \<lparr>escapeId = sql_escapeId, escape = sql_escape, validatejs = (\<lambda>data constraints2. Undefined), db_query = db\<rparr>"

text \<open>
  The table \<^verbatim>\<open>user\<close> of the README with the single row of id 7, and a handle on it whose
  constraint objects for \<^verbatim>\<open>username\<close> and \<^verbatim>\<open>email\<close> are at the addresses 0 and 1.
\<close>

definition user_db :: "string \<Rightarrow> reply" where
  "user_db sql =
     (if sql = ''SELECT * FROM `user` WHERE (`id` = 7) LIMIT 1''
      then Rows [Obj [(''id'', Num 7), (''username'', Str ''king'')]]
      else Rows [])"

definition user_handle :: handle where
  "user_handle = \<lparr>table = Str ''user'', pk = Str ''id'', constraints = [(''username'', 0), (''email'', 1)]\<rparr>"

definition user_world :: world where
  "user_world =
     \<lparr>heap = (\<lambda>a. if a = 0 then [(''presence'', Bool True)]
                  else if a = 1 then [(''email'', Bool True)]
                  else if a = 2 then [(''orderBy'', Str ''id ASC''), (''limit'', Num 10)]
                  else []),
      sent = [], calls = []\<rparr>"

section \<open>Auxiliary facts\<close>

lemmas js_defs =
  index_of_key_def decimal_value_def array_like_length_def is_digit_def is_space_def pk_shaped_def has_wildcard_def toUpperCase_def
  upper_char_def show_int_def show_nat.simps digit_char_def set_prop_def elem_string_def
  missing_msg_def

lemmas compile_defs =
  compileConditions_def compile_descriptor_def compile_item_def item_parts_def
  compileOptions_def compile_fields_def

lemmas sample_defs =
  sample_env_def user_db_def user_handle_def user_world_def quote_id_def quote_str_def

subsection \<open>Assigning a field\<close>

lemma set_prop_Nil [simp]: "set_prop [] k v = [(k, v)]"
  by (simp add: set_prop_def split: option.splits)

lemma map_of_insert_index:
  "k \<notin> fst ` set kvs \<Longrightarrow> map_of (insert_index n k v kvs) = (map_of kvs)(k \<mapsto> v)"
proof (induction kvs)
  case Nil
  then show ?case by simp
next
  case (Cons kv kvs)
  obtain k' v' where kv: "kv = (k', v')" by (cases kv)
  from Cons.prems kv have ne: "k' \<noteq> k" and notin: "k \<notin> fst ` set kvs" by auto
  show ?case
    using Cons.IH [OF notin] ne kv
    by (auto simp: fun_upd_twist split: option.splits)
qed

lemma map_of_replace:
  "k \<in> fst ` set kvs \<Longrightarrow>
   map_of (map (\<lambda>(k', v'). if k' = k then (k', v) else (k', v')) kvs) = (map_of kvs)(k \<mapsto> v)"
proof (induction kvs)
  case Nil
  then show ?case by simp
next
  case (Cons kv kvs)
  obtain k' v' where kv: "kv = (k', v')" by (cases kv)
  show ?case
  proof (cases "k \<in> fst ` set kvs")
    case True
    then show ?thesis using Cons.IH kv by (auto simp: fun_upd_twist)
  next
    case False
    then have same: "map (\<lambda>(k', v'). if k' = k then (k', v) else (k', v')) kvs = kvs"
      by (induction kvs) auto
    from False Cons.prems kv have "k' = k" by auto
    then show ?thesis using kv same by auto
  qed
qed

lemma map_of_snoc:
  "k \<notin> fst ` set kvs \<Longrightarrow> [k \<mapsto> v] ++ map_of kvs = (map_of kvs)(k \<mapsto> v)"
proof -
  assume "k \<notin> fst ` set kvs"
  then have "map_of kvs k = None" by (simp add: map_of_eq_None_iff)
  then show ?thesis by (auto simp: map_add_def fun_eq_iff split: option.splits)
qed

lemma map_of_set_prop: "map_of (set_prop kvs k v) = (map_of kvs)(k \<mapsto> v)"
proof (cases "k \<in> fst ` set kvs")
  case True
  then show ?thesis by (simp add: set_prop_def map_of_replace)
next
  case False
  then show ?thesis
    by (cases "index_of_key k") (simp_all add: set_prop_def map_of_insert_index map_of_snoc)
qed

subsection \<open>The condition compiler by cases\<close>


lemma compileConditions_scalar:
  "isNumber v \<or> (isString v \<and> pk_shaped (to_string v)) \<Longrightarrow>
   compileConditions E pkspec v = compile_descriptor E (Obj [(to_string pkspec, v)])"
  by (simp add: compileConditions_def)

lemma compileConditions_raw:
  "\<not> pk_shaped s \<Longrightarrow> compileConditions E pkspec (Str s) = Inl (ReferenceError ''condition'')"
  by (simp add: compileConditions_def)

lemma compileConditions_object:
  "isObject d \<Longrightarrow> compileConditions E pkspec d = compile_descriptor E d"
  by (cases d) (simp_all add: compileConditions_def)





lemma compile_fields_limit1: "compile_fields [(''limit'', Num 1)] = '' LIMIT 1''"
  by (simp add: compile_fields_def js_defs)

lemma buildPkCondition_Obj:
  assumes "buildPkCondition pkspec data = Inr condition"
  shows "\<exists>kvs. condition = Obj kvs"
proof -
  have m: "\<exists>kvs. c = Obj kvs" if "map_sum id Obj x = Inr c"
    for x :: "exn + (string \<times> jsval) list" and c
    using that by (cases x) auto
  from assms show ?thesis
    by (auto simp: buildPkCondition_def split: if_splits dest: m)
qed

subsection \<open>What each method leaves alone\<close>

lemma newMethod_None [simp]: "newMethod conv f a None w = f a w"
  by (simp add: newMethod_def split: prod.splits sum.splits)

lemma newMethod_Some:
  "newMethod conv f a (Some c) w =
     (case f a w of
        (Inl e, w') \<Rightarrow> (Inl e, w')
      | (Inr (Resolved d), w') \<Rightarrow>
          (Inr (Resolved d), w'\<lparr>calls := calls w' @ [Invoke c [Val Null, Val (conv d)]]\<rparr>)
      | (Inr (Rejected e), w') \<Rightarrow>
          (Inr (Rejected e), w'\<lparr>calls := calls w' @ [Invoke c [Err e]]\<rparr>))"
  by (simp add: newMethod_def split: prod.splits sum.splits promise.splits)

lemma search_frame:
  "search E h c opts w = (r, w') \<Longrightarrow> heap w' = heap w \<and> calls w' = calls w"
  by (auto simp: search_def query_def Let_def split: sum.splits)

lemma remove_frame:
  "remove E h c w = (r, w') \<Longrightarrow> heap w' = heap w \<and> calls w' = calls w"
  by (auto simp: remove_def query_def Let_def split: sum.splits)

lemma update_frame:
  "update E h c data cs w = (r, w') \<Longrightarrow> heap w' = heap w \<and> calls w' = calls w"
  by (auto simp: update_def query_def Let_def split: sum.splits if_splits)

lemma validate_frame:
  "validate E h data cs w = (r, w') \<Longrightarrow> sent w' = sent w \<and> calls w' = calls w"
  by (auto simp: validate_def Let_def split: if_splits)

lemma insert_frame:
  "insert_op E h data cs w = (r, w') \<Longrightarrow> calls w' = calls w"
  by (auto simp: insert_op_def query_def Let_def split: prod.splits if_splits dest: validate_frame)

lemma find_frame:
  "find_op E h c opts w = (r, w') \<Longrightarrow> calls w' = calls w"
  by (cases opts)
    (auto simp: find_op_def bound_search_def split: prod.splits sum.splits if_splits dest!: search_frame)

lemma replace_frame:
  "replace E h data cs w = (r, w') \<Longrightarrow> calls w' = calls w"
  by (auto simp: replace_def bound_find_def bound_update_def bound_insert_def then_promise_def
        split: prod.splits sum.splits if_splits promise.splits
        dest!: find_frame update_frame insert_frame)

section \<open>The claims\<close>

subsection \<open>C1: the handle's constraints under validate\<close>

text \<open>
  Claim C1 says that \<^verbatim>\<open>validate(data, constraints)\<close> merges the supplied mapping over the
  handle's constraints without modifying the handle's own. The copy made by \<^verbatim>\<open>_.clone\<close> is
  shallow, so \<^verbatim>\<open>_.extend\<close> writes into the rule objects the handle holds. On the handle
  with \<^verbatim>\<open>{username: {presence: true}, email: {email: true}}\<close>, after
  \<^verbatim>\<open>validate(data, {username: {length: 3}})\<close> the handle's rule object for \<^verbatim>\<open>username\<close> has
  gained the field \<^verbatim>\<open>length\<close>, and the handle's constraints read differently than before.
\<close>

theorem validate_mutates_handle_constraints:
  "heap user_world 0 = [(''presence'', Bool True)]
   \<and> heap (snd (validate E user_handle data (Obj [(''username'', Obj [(''length'', Num 3)])]) user_world)) 0
       = [(''presence'', Bool True), (''length'', Num 3)]
   \<and> view (heap user_world) (constraints user_handle)
       = Obj [(''username'', Obj [(''presence'', Bool True)]), (''email'', Obj [(''email'', Bool True)])]
   \<and> view (heap (snd (validate E user_handle data (Obj [(''username'', Obj [(''length'', Num 3)])]) user_world)))
        (constraints user_handle)
       = Obj [(''username'', Obj [(''presence'', Bool True), (''length'', Num 3)]),
              (''email'', Obj [(''email'', Bool True)])]"
  by (simp add: validate_def view_def extend_def user_handle_def user_world_def js_defs Let_def)

subsection \<open>C2: a raw string condition\<close>

text \<open>
  Claim C2 says that a non-empty string that is not primary-key-shaped compiles to
  \<^verbatim>\<open>" WHERE "\<close> followed by the string. The string \<^verbatim>\<open>id > 5\<close> is not primary-key-shaped,
  and \<^verbatim>\<open>compileConditions\<close> throws the ReferenceError of the undeclared \<^verbatim>\<open>condition\<close> on it
  instead of returning \<^verbatim>\<open>" WHERE id > 5"\<close>.
\<close>

theorem compileConditions_raw_string_throws:
  "\<not> pk_shaped ''id > 5''
   \<and> compileConditions E pkspec (Str ''id > 5'') = Inl (ReferenceError ''condition'')
   \<and> compileConditions E pkspec (Str ''id > 5'') \<noteq> Inr '' WHERE id > 5''"
  by (simp add: compileConditions_def pk_shaped_def is_space_def)

subsection \<open>C3: a composite key and a positional record\<close>

text \<open>
  Claim C3 says that with a composite primary key a positional record is mapped to the
  key fields by index. With the key \<^verbatim>\<open>["tenant", "id"]\<close> and the record \<^verbatim>\<open>["a", 7]\<close>,
  \<^verbatim>\<open>buildPkCondition\<close> takes the branch for mappings, since an array is an object to
  \<^verbatim>\<open>_.isObject\<close>, and throws the InvalidCall error for a missing \<^verbatim>\<open>tenant\<close>; it does not
  return \<^verbatim>\<open>{tenant: "a", id: 7}\<close>.
\<close>

theorem buildPkCondition_positional_record_throws:
  "buildPkCondition (Arr [Str ''tenant'', Str ''id'']) (Arr [Str ''a'', Num 7])
     = Inl (DbError ''invalid_call'' (Str (missing_msg (Str ''tenant''))))
   \<and> buildPkCondition (Arr [Str ''tenant'', Str ''id'']) (Arr [Str ''a'', Num 7])
     \<noteq> Inr (Obj [(''tenant'', Str ''a''), (''id'', Num 7)])"
  by (simp add: buildPkCondition_def index_of_key_def is_digit_def)

subsection \<open>C4: the trailing callback\<close>

text \<open>
  Claim C4 says that a trailing callback is invoked exactly once on every failure and
  every success. It fails where the wrapped method throws: \<^verbatim>\<open>search\<close> on
  \<^verbatim>\<open>{username: ["LIKE"]}\<close> with the callback 0 throws the InvalidParameter error of the
  condition compiler, returns no deferred result and never invokes the callback.
\<close>

theorem callback_not_invoked_on_throw:
  "fst (call (sample_env user_db) user_handle
          (Search (Obj [(''username'', Arr [Str ''LIKE''])]) NoOptions) (Some 0) user_world)
     = Inl (DbError ''invalid_param'' (Str ''not enough params for condition''))
   \<and> calls (snd (call (sample_env user_db) user_handle
          (Search (Obj [(''username'', Arr [Str ''LIKE''])]) NoOptions) (Some 0) user_world)) = []"
  by (simp add: as_value_def bound_search_def newMethod_def search_def compile_defs js_defs
        sample_defs)

text \<open>
  Claim C4, amended. For each of the seven wrapped methods, a call with the trailing
  callback \<open>c\<close> does what the call without it does, and then: if the method threw, the
  exception propagates, nothing is returned and the callback is not invoked; if it returned
  a deferred result, the same deferred result is returned and exactly one invocation of
  \<open>c\<close> is recorded, with \<^verbatim>\<open>(null, result)\<close> when it resolved and with the error as the only
  argument when it rejected. The method itself records no invocation.
\<close>

theorem callback_invoked_once_when_deferred:
  "call E h opn (Some c) w =
     (case call E h opn None w of
        (Inl e, w') \<Rightarrow> (Inl e, w')
      | (Inr (Resolved v), w') \<Rightarrow>
          (Inr (Resolved v), w'\<lparr>calls := calls w' @ [Invoke c [Val Null, Val v]]\<rparr>)
      | (Inr (Rejected e), w') \<Rightarrow>
          (Inr (Rejected e), w'\<lparr>calls := calls w' @ [Invoke c [Err e]]\<rparr>))
   \<and> calls (snd (call E h opn None w)) = calls w"
proof (cases opn)
  case (Search conditions opts)
  then show ?thesis
    by (auto simp: as_value_def bound_search_def newMethod_Some then_value_def
          split: prod.splits sum.splits promise.splits dest!: search_frame)
next
  case (Find conditions opts)
  then show ?thesis
    by (auto simp: bound_find_def newMethod_Some
          split: prod.splits sum.splits promise.splits dest!: find_frame)
next
  case (FindByPk conditions opts)
  then show ?thesis
    by (auto simp: bound_findByPk_def findByPk_def bound_find_def newMethod_Some
          split: prod.splits sum.splits promise.splits dest!: find_frame)
next
  case (Insert data constraints2)
  then show ?thesis
    by (auto simp: as_value_def bound_insert_def newMethod_Some then_value_def
          split: prod.splits sum.splits promise.splits dest!: insert_frame)
next
  case (Update conditions data constraints2)
  then show ?thesis
    by (auto simp: as_value_def bound_update_def newMethod_Some then_value_def
          split: prod.splits sum.splits promise.splits dest!: update_frame)
next
  case (Replace data constraints2)
  then show ?thesis
    by (auto simp: as_value_def bound_replace_def newMethod_Some then_value_def
          split: prod.splits sum.splits promise.splits dest!: replace_frame)
next
  case (Delete conditions)
  then show ?thesis
    by (auto simp: as_value_def bound_delete_def newMethod_Some then_value_def
          split: prod.splits sum.splits promise.splits dest!: remove_frame)
qed

subsection \<open>C5: the empty condition\<close>

text \<open>
  Claim C5: for the empty mapping and for an omitted argument \<^verbatim>\<open>compileConditions\<close>
  returns the empty string, and \<^verbatim>\<open>remove\<close> (and \<^verbatim>\<open>delete\<close>, its wrapped alias) hands the
  driver exactly \<^verbatim>\<open>DELETE FROM\<close> followed by the escaped table name, with no WHERE clause.
\<close>

theorem empty_condition_deletes_all:
  "compileConditions E pkspec (Obj []) = Inr []
   \<and> compileConditions E pkspec Undefined = Inr []
   \<and> remove E h (Obj []) w
       = (Inr (settle_reply (db_query E (''DELETE FROM '' @ escapeId E (table h)))),
          w\<lparr>sent := sent w @ [''DELETE FROM '' @ escapeId E (table h)]\<rparr>)
   \<and> remove E h Undefined w
       = (Inr (settle_reply (db_query E (''DELETE FROM '' @ escapeId E (table h)))),
          w\<lparr>sent := sent w @ [''DELETE FROM '' @ escapeId E (table h)]\<rparr>)
   \<and> bound_delete E h (Obj []) None w = remove E h (Obj []) w
   \<and> bound_delete E h Undefined None w = remove E h Undefined w"
  by (simp add: compileConditions_def compile_descriptor_def remove_def query_def
        bound_delete_def Let_def)

subsection \<open>C6: a scalar key missing from the record\<close>

text \<open>
  Claim C6 says that with a scalar primary key a mapping without the key field fails with
  the InvalidParameter error. With the key \<^verbatim>\<open>id\<close> and the record \<^verbatim>\<open>{username: "king"}\<close>,
  \<^verbatim>\<open>buildPkCondition\<close> throws a plain \<^verbatim>\<open>Error\<close> with the message \<^verbatim>\<open>missing primary key\<close>, which
  is not the \<^verbatim>\<open>DbError\<close> of kind \<^verbatim>\<open>invalid_param\<close> that \<^verbatim>\<open>replace\<close> has for this case.
\<close>

theorem buildPkCondition_missing_key_plain_error:
  "buildPkCondition (Str ''id'') (Obj [(''username'', Str ''king'')]) = Inl (Error ''missing primary key'')
   \<and> buildPkCondition (Str ''id'') (Obj [(''username'', Str ''king'')])
     \<noteq> Inl (DbError ''invalid_param'' (Str ''missing primary key''))"
  by (simp add: buildPkCondition_def)

subsection \<open>C7: a scalar condition and the keyed condition on the primary key\<close>

text \<open>
  Claim C7 says that every scalar \<open>v\<close>, a number or a string without whitespace and
  without \<^verbatim>\<open>= < > "\<close>, compiles as \<^verbatim>\<open>{pk: v}\<close> does. The empty string is such a string, and
  it does not: the test for primary-key shape asks for at least one character, so the
  empty string is not rewritten to \<^verbatim>\<open>{pk: ""}\<close>, and the two calls differ.
\<close>

theorem empty_string_not_keyed:
  "compileConditions (sample_env user_db) (Str ''id'') (Str [])
     \<noteq> compileConditions (sample_env user_db) (Str ''id'') (Obj [(''id'', Str [])])"
  by (simp add: compile_defs js_defs)

text \<open>
  Claim C7, amended. For every number and every non-empty string without whitespace and
  without \<^verbatim>\<open>= < > "\<close>, \<^verbatim>\<open>compileConditions(v)\<close> is \<^verbatim>\<open>compileConditions({pk: v})\<close>, where the
  field name is the handle's primary key as a property name.
\<close>

theorem scalar_condition_is_keyed:
  "isNumber v \<or> (isString v \<and> pk_shaped (to_string v)) \<Longrightarrow>
   compileConditions E pkspec v = compileConditions E pkspec (Obj [(to_string pkspec, v)])"
  by (simp add: compileConditions_scalar compileConditions_object)

theorem scalar_condition_is_keyed_witness:
  "isNumber (Num 12)
   \<and> compileConditions (sample_env user_db) (Str ''id'') (Num 12) = Inr '' WHERE (`id` = 12)''
   \<and> compileConditions (sample_env user_db) (Str ''id'') (Obj [(''id'', Num 12)]) = Inr '' WHERE (`id` = 12)''"
  using scalar_condition_is_keyed [of "Num 12" "sample_env user_db" "Str ''id''"]
  by (simp add: compile_defs js_defs sample_defs)

subsection \<open>C8: an operator tuple that is too short\<close>




subsection \<open>C9: replace\<close>

text \<open>
  Claim C9: when \<^verbatim>\<open>buildPkCondition\<close> resolves a condition from the data, \<^verbatim>\<open>replace\<close> runs
  the find on that condition, that is it sends \<^verbatim>\<open>SELECT * FROM\<close> the table with the
  compiled condition and \<^verbatim>\<open>LIMIT 1\<close> (or throws what the condition compiler throws, with
  nothing sent); if the driver fails the result is rejected with the driver's error; if a
  row comes back the result is that of \<^verbatim>\<open>update\<close> with the condition and the data; if no
  row comes back it is that of \<^verbatim>\<open>insert\<close> with the data. An exception of \<^verbatim>\<open>update\<close> or
  \<^verbatim>\<open>insert\<close> rejects the result. A first row that is falsy counts as no row.
\<close>

theorem replace_finds_then_updates_or_inserts:
  assumes "buildPkCondition (pk h) data = Inr condition"
  shows "replace E h data constraints2 w =
     (case compileConditions E (pk h) condition of
        Inl e \<Rightarrow> (Inl e, w)
      | Inr wh \<Rightarrow>
          let sel = ''SELECT * FROM '' @ escapeId E (table h) @ wh @ '' LIMIT 1'';
              w1 = w\<lparr>sent := sent w @ [sel]\<rparr>
          in case db_query E sel of
               Failed err \<Rightarrow> (Inr (Rejected (DriverError err)), w1)
             | Rows rows \<Rightarrow>
                 (case (case rows of
                          [] \<Rightarrow> insert_op E h data constraints2 w1
                        | row # _ \<Rightarrow>
                            if truthy row then update E h condition data constraints2 w1
                            else insert_op E h data constraints2 w1) of
                    (Inl e, w2) \<Rightarrow> (Inr (Rejected e), w2)
                  | (Inr p, w2) \<Rightarrow> (Inr p, w2)))"
proof -
  from buildPkCondition_Obj [OF assms] have obj: "\<not> isUndefined condition"
    by auto
  show ?thesis
    using assms obj
    by (auto simp: replace_def bound_find_def find_op_def bound_search_def search_def query_def
          settle_reply_def then_value_def then_promise_def first_row_def compileOptions_def
          compile_fields_limit1 bound_update_def bound_insert_def Let_def
          split: sum.splits reply.splits list.splits prod.splits)
qed

text \<open>
  The two scenarios on the table \<^verbatim>\<open>user\<close>: the row of id 7 exists and the update is sent
  with the condition on id 7; no row of id 99 exists and the insert is sent. In both the
  field \<^verbatim>\<open>age\<close>, absent from the constraints, is dropped.
\<close>

theorem replace_finds_then_updates_or_inserts_witness:
  "buildPkCondition (pk user_handle) (Obj [(''id'', Num 7), (''username'', Str ''queen''), (''age'', Num 30)])
     = Inr (Obj [(''id'', Num 7)])
   \<and> buildPkCondition (pk user_handle) (Obj [(''id'', Num 99), (''username'', Str ''queen''), (''age'', Num 30)])
     = Inr (Obj [(''id'', Num 99)])
   \<and> sent (snd (replace (sample_env user_db) user_handle
                  (Obj [(''id'', Num 7), (''username'', Str ''queen''), (''age'', Num 30)]) Undefined user_world))
     = [''SELECT * FROM `user` WHERE (`id` = 7) LIMIT 1'',
        ''UPDATE `user` SET `username` = 'queen' WHERE (`id` = 7)'']
   \<and> sent (snd (replace (sample_env user_db) user_handle
                  (Obj [(''id'', Num 99), (''username'', Str ''queen''), (''age'', Num 30)]) Undefined user_world))
     = [''SELECT * FROM `user` WHERE (`id` = 99) LIMIT 1'',
        ''INSERT INTO `user` SET `username` = '' @ [CHR 0x27] @ ''queen'' @ [CHR 0x27]]"
proof -
  have a: "buildPkCondition (pk user_handle) (Obj [(''id'', Num 7), (''username'', Str ''queen''), (''age'', Num 30)])
     = Inr (Obj [(''id'', Num 7)])"
    by (simp add: buildPkCondition_def user_handle_def)
  have b: "buildPkCondition (pk user_handle) (Obj [(''id'', Num 99), (''username'', Str ''queen''), (''age'', Num 30)])
     = Inr (Obj [(''id'', Num 99)])"
    by (simp add: buildPkCondition_def user_handle_def)
  show ?thesis
    using a b
      replace_finds_then_updates_or_inserts [OF a, of "sample_env user_db" Undefined user_world]
      replace_finds_then_updates_or_inserts [OF b, of "sample_env user_db" Undefined user_world]
    by (simp add: compile_defs js_defs sample_defs update_def insert_op_def pick_def query_def
          settle_reply_def Let_def)
qed

subsection \<open>C10: find and the caller's options object\<close>

text \<open>
  Claim C10: \<^verbatim>\<open>find(conditions, options)\<close> on an options object of the caller's, at the
  address \<open>a\<close> of the store, assigns 1 to its field \<^verbatim>\<open>limit\<close>, whatever the field held, and
  then delegates to \<^verbatim>\<open>search\<close> on the store so changed; after the call the object still
  has \<^verbatim>\<open>limit\<close> 1, each of its other fields reads as before, and every other object of the
  store is as before. This holds also when \<^verbatim>\<open>search\<close> throws.
\<close>

theorem find_sets_limit_on_callers_options:
  "let w' = snd (find_op E h conditions (OptionsAt a) w) in
     heap w' a = set_prop (heap w a) ''limit'' (Num 1)
   \<and> lookup (heap w' a) ''limit'' = Num 1
   \<and> (\<forall>k. k \<noteq> ''limit'' \<longrightarrow> lookup (heap w' a) k = lookup (heap w a) k)
   \<and> (\<forall>b. b \<noteq> a \<longrightarrow> heap w' b = heap w b)
   \<and> find_op E h conditions (OptionsAt a) w =
       (case search E h conditions (OptionsAt a)
               (w\<lparr>heap := (heap w)(a := set_prop (heap w a) ''limit'' (Num 1))\<rparr>) of
          (Inl e, w2) \<Rightarrow> (Inl e, w2)
        | (Inr p, w2) \<Rightarrow> (Inr (then_value p first_row), w2))"
proof -
  let ?w1 = "w\<lparr>heap := (heap w)(a := set_prop (heap w a) ''limit'' (Num 1))\<rparr>"
  have eq: "find_op E h conditions (OptionsAt a) w =
       (case search E h conditions (OptionsAt a) ?w1 of
          (Inl e, w2) \<Rightarrow> (Inl e, w2)
        | (Inr p, w2) \<Rightarrow> (Inr (then_value p first_row), w2))"
    by (simp add: find_op_def bound_search_def)
  obtain r w2 where s: "search E h conditions (OptionsAt a) ?w1 = (r, w2)"
    by (cases "search E h conditions (OptionsAt a) ?w1")
  from search_frame [OF s] have hp: "heap w2 = heap ?w1" by simp
  have snd_eq: "snd (find_op E h conditions (OptionsAt a) w) = w2"
    using eq s by (cases r) simp_all
  have "heap w2 a = set_prop (heap w a) ''limit'' (Num 1)"
    and "\<forall>b. b \<noteq> a \<longrightarrow> heap w2 b = heap w b"
    using hp by simp_all
  then show ?thesis
    unfolding Let_def snd_eq using eq
    by (simp add: map_of_set_prop)
qed

theorem find_sets_limit_on_callers_options_witness:
  "lookup (heap user_world 2) ''limit'' = Num 10
   \<and> lookup (heap (snd (find_op (sample_env user_db) user_handle (Num 7) (OptionsAt 2) user_world)) 2) ''limit''
       = Num 1
   \<and> lookup (heap (snd (find_op (sample_env user_db) user_handle (Num 7) (OptionsAt 2) user_world)) 2) ''orderBy''
       = Str ''id ASC''
   \<and> heap (snd (find_op (sample_env user_db) user_handle (Num 7) (OptionsAt 2) user_world)) 0
       = [(''presence'', Bool True)]"
proof -
  let ?w' = "snd (find_op (sample_env user_db) user_handle (Num 7) (OptionsAt 2) user_world)"
  note c = find_sets_limit_on_callers_options
             [of "sample_env user_db" user_handle "Num 7" 2 user_world, unfolded Let_def]
  from c have limit: "lookup (heap ?w' 2) ''limit'' = Num 1"
    by (elim conjE)
  from c have others: "\<forall>k. k \<noteq> ''limit'' \<longrightarrow> lookup (heap ?w' 2) k = lookup (heap user_world 2) k"
    by (elim conjE)
  from c have elsewhere: "\<forall>b. b \<noteq> 2 \<longrightarrow> heap ?w' b = heap user_world b"
    by (elim conjE)
  from others have "lookup (heap ?w' 2) ''orderBy'' = lookup (heap user_world 2) ''orderBy''"
    by simp
  moreover from elsewhere have "heap ?w' 0 = heap user_world 0"
    by simp
  ultimately show ?thesis
    using limit by (simp add: user_world_def)
qed

end
